theory Spec2Isabelle
  imports Main
begin

section \<open>Data model\<close>

text \<open>
  Shallow embedding of the Shared Fate module (\<^verbatim>\<open>fate-point-manager.mjs\<close>,
  \<^verbatim>\<open>module.mjs\<close>, \<^verbatim>\<open>ui-handler.mjs\<close>, \<^verbatim>\<open>settings.mjs\<close>).
  Point values and amounts are integers (\<^typ>\<open>int\<close>); a JavaScript value that may be
  \<^verbatim>\<open>null\<close> or \<^verbatim>\<open>undefined\<close> is an \<^typ>\<open>'a option\<close>, and the \<^verbatim>\<open>??\<close> operator
  is the \<^verbatim>\<open>case\<close> on it. A \<^verbatim>\<open>User\<close> argument is a user object, never \<^verbatim>\<open>null\<close>.
\<close>

text \<open>\<^verbatim>\<open>actor.system.fate\<close>: the fields \<^verbatim>\<open>value\<close> and \<^verbatim>\<open>max\<close>, either of which may be missing.\<close>

record fate_field =
  fvalue :: "int option"
  fmax :: "int option"

text \<open>
  An actor of the host. \<^verbatim>\<open>owners\<close> lists the ids of the users for which
  \<^verbatim>\<open>testUserPermission(user, "OWNER")\<close> holds; \<^verbatim>\<open>fate\<close> is \<^verbatim>\<open>system?.fate\<close>.
\<close>

record actor =
  aid :: string
  aname :: string
  atype :: string
  hasPlayerOwner :: bool
  owners :: "string list"
  fate :: "fate_field option"

text \<open>A user of the host; \<^verbatim>\<open>character\<close> is the id of the assigned actor, if any.\<close>

record user =
  uid :: string
  uname :: string
  isGM :: bool
  character :: "string option"

text \<open>The six registered settings (\<^verbatim>\<open>SETTINGS_KEYS\<close>).\<close>

record module_settings =
  gmRuin :: "int option"
  gmRuinMax :: "int option"
  showMaxFate :: bool
  allowPlayerUse :: bool
  showChatMessages :: bool
  logLevel :: string

text \<open>The shared state: the settings store and \<^verbatim>\<open>game.actors\<close>.\<close>

record world =
  settings :: module_settings
  actors :: "actor list"

text \<open>
  A connected session: \<^verbatim>\<open>game.user\<close>, and whether the host accepts the three calls the
  module awaits inside \<^verbatim>\<open>try\<close> (a rejected call throws there).
\<close>

record session =
  gameUser :: user
  updateAccepted :: bool
  settingAccepted :: bool
  chatAccepted :: bool

text \<open>\<^verbatim>\<open>{current, max}\<close> as returned by \<^verbatim>\<open>getFatePoints\<close> and \<^verbatim>\<open>getRuinPoints\<close>.\<close>

record points =
  current :: int
  max_points :: int

text \<open>The argument of \<^verbatim>\<open>ChatMessage.create\<close>: CSS class, locale key, speaker alias, format data.\<close>

record chat_message =
  cm_class :: string
  cm_key :: string
  cm_alias :: string
  cm_data :: "(string \<times> int) list"

text \<open>
  The calls a function makes, in order: \<^verbatim>\<open>notify(key, type)\<close>, \<^verbatim>\<open>log(level, message)\<close>,
  \<^verbatim>\<open>character.update\<close> of the fate value of an actor, \<^verbatim>\<open>setSetting(key, value)\<close>,
  \<^verbatim>\<open>ChatMessage.create\<close> and \<^verbatim>\<open>UIHandler.refresh()\<close>. A call the host rejects is in
  the trace all the same.
\<close>

datatype effect =
    Notify string string
  | Log string string
  | ActorUpdate string int
  | SettingSet string int
  | ChatCreate chat_message
  | Refresh

text \<open>What an asynchronous operation resolves to, the calls it made, and the state it leaves.\<close>

record outcome =
  returned :: bool
  trace :: "effect list"
  world_after :: world

section \<open>Resource Manager\<close>

text \<open>The default parameter \<^verbatim>\<open>amount = 1\<close>.\<close>

definition amountOrDefault :: "int option \<Rightarrow> int" where
  "amountOrDefault amountArg = (case amountArg of None \<Rightarrow> 1 | Some a \<Rightarrow> a)"

text \<open>\<^verbatim>\<open>user.character\<close> is resolved by the host among \<^verbatim>\<open>game.actors\<close>.\<close>

definition assignedCharacter :: "world \<Rightarrow> user \<Rightarrow> actor option" where
  "assignedCharacter w u =
     (case character u of
        None \<Rightarrow> None
      | Some cid \<Rightarrow> find (\<lambda>a. aid a = cid) (actors w))"

definition getPlayerCharacter :: "world \<Rightarrow> user \<Rightarrow> actor option" where
  "getPlayerCharacter w u =
     (if isGM u then None
      else case assignedCharacter w u of
             Some c \<Rightarrow>
               if atype c = ''character'' then Some c
               else find (\<lambda>a. atype a = ''character'' \<and> hasPlayerOwner a \<and> uid u \<in> set (owners a))
                      (actors w)
           | None \<Rightarrow>
               find (\<lambda>a. atype a = ''character'' \<and> hasPlayerOwner a \<and> uid u \<in> set (owners a))
                 (actors w))"

definition getFatePoints :: "world \<Rightarrow> user \<Rightarrow> points option" where
  "getFatePoints w u =
     (if isGM u then None
      else case getPlayerCharacter w u of
             None \<Rightarrow> None
           | Some c \<Rightarrow>
               (case fate c of
                  None \<Rightarrow> None
                | Some f \<Rightarrow>
                    Some \<lparr>current = (case fvalue f of None \<Rightarrow> 0 | Some v \<Rightarrow> v),
                          max_points = (case fmax f of None \<Rightarrow> 0 | Some m \<Rightarrow> m)\<rparr>))"

definition getRuinPoints :: "world \<Rightarrow> points" where
  "getRuinPoints w =
     \<lparr>current = (case gmRuin (settings w) of None \<Rightarrow> 0 | Some v \<Rightarrow> v),
      max_points = (case gmRuinMax (settings w) of None \<Rightarrow> 5 | Some m \<Rightarrow> m)\<rparr>"

text \<open>
  \<^verbatim>\<open>_sendRuinChatMessage\<close>: the \<^verbatim>\<open>switch\<close> on the action, with its \<^verbatim>\<open>default: return\<close>.
  The result is the call made, if any.
\<close>

definition sendRuinChatMessage :: "string \<Rightarrow> int \<Rightarrow> int \<Rightarrow> int \<Rightarrow> effect list" where
  "sendRuinChatMessage action amount newValue maxValue =
     (let localeKey =
            (if action = ''used'' then Some ''Chat.UsedRuin''
             else if action = ''added'' then Some ''Chat.AddedRuin''
             else if action = ''removed'' then Some ''Chat.RemovedRuin''
             else None)
      in case localeKey of
           None \<Rightarrow> []
         | Some k \<Rightarrow>
             [ChatCreate \<lparr>cm_class = ''ruin-message'', cm_key = k, cm_alias = ''GM'',
                          cm_data = [(''amount'', amount), (''remaining'', newValue),
                                     (''current'', newValue), (''max'', maxValue)]\<rparr>])"

text \<open>
  The \<^verbatim>\<open>try { ... } catch\<close> block shared by \<^verbatim>\<open>useRuin\<close>, \<^verbatim>\<open>addRuin\<close> and
  \<^verbatim>\<open>removeRuin\<close>: write the setting, log, optionally send the chat message, return true;
  a rejected call is caught, logged and notified, and the operation returns false. A chat
  message that is rejected comes after the setting was written.
\<close>

definition persistRuin ::
  "session \<Rightarrow> world \<Rightarrow> string \<Rightarrow> string \<Rightarrow> string \<Rightarrow> bool \<Rightarrow> int \<Rightarrow> int \<Rightarrow> int \<Rightarrow> outcome" where
  "persistRuin s w action okMsg failMsg chatMessage amount newValue maxValue =
     (if \<not> settingAccepted s then
        \<lparr>returned = False,
         trace = [SettingSet ''gmRuin'' newValue, Log ''error'' failMsg,
                  Notify ''UpdateFailed'' ''error''],
         world_after = w\<rparr>
      else
        let w' = w\<lparr>settings := (settings w)\<lparr>gmRuin := Some newValue\<rparr>\<rparr>;
            written = [SettingSet ''gmRuin'' newValue, Log ''info'' okMsg];
            chat = (if chatMessage then sendRuinChatMessage action amount newValue maxValue else [])
        in if chat \<noteq> [] \<and> \<not> chatAccepted s then
             \<lparr>returned = False,
              trace = written @ chat @ [Log ''error'' failMsg, Notify ''UpdateFailed'' ''error''],
              world_after = w'\<rparr>
           else \<lparr>returned = True, trace = written @ chat, world_after = w'\<rparr>)"

text \<open>\<^verbatim>\<open>options.chatMessage\<close>, defaulting to the "show chat messages" setting.\<close>

definition chatMessageOption :: "world \<Rightarrow> bool option \<Rightarrow> bool" where
  "chatMessageOption w opt =
     (case opt of None \<Rightarrow> showChatMessages (settings w) | Some b \<Rightarrow> b)"

definition useRuin :: "session \<Rightarrow> world \<Rightarrow> int option \<Rightarrow> bool option \<Rightarrow> outcome" where
  "useRuin s w amountArg opt =
     (let amount = amountOrDefault amountArg;
          chatMessage = chatMessageOption w opt
      in if \<not> isGM (gameUser s) then
           \<lparr>returned = False, trace = [Notify ''GMOnly'' ''warn''], world_after = w\<rparr>
         else
           let ruinData = getRuinPoints w
           in if current ruinData < amount then
                \<lparr>returned = False, trace = [Notify ''InsufficientRuin'' ''warn''], world_after = w\<rparr>
              else
                let newValue = max 0 (current ruinData - amount)
                in persistRuin s w ''used'' ''Ruin point used'' ''Failed to use Ruin point''
                     chatMessage amount newValue (max_points ruinData))"

definition addRuin :: "session \<Rightarrow> world \<Rightarrow> int option \<Rightarrow> bool option \<Rightarrow> outcome" where
  "addRuin s w amountArg opt =
     (let amount = amountOrDefault amountArg;
          chatMessage = chatMessageOption w opt
      in if \<not> isGM (gameUser s) then
           \<lparr>returned = False, trace = [Notify ''GMOnly'' ''warn''], world_after = w\<rparr>
         else
           let ruinData = getRuinPoints w;
               newValue = min (max_points ruinData) (current ruinData + amount)
           in persistRuin s w ''added'' ''Ruin point added'' ''Failed to add Ruin point''
                chatMessage amount newValue (max_points ruinData))"

definition removeRuin :: "session \<Rightarrow> world \<Rightarrow> int option \<Rightarrow> bool option \<Rightarrow> outcome" where
  "removeRuin s w amountArg opt =
     (let amount = amountOrDefault amountArg;
          chatMessage = chatMessageOption w opt
      in if \<not> isGM (gameUser s) then
           \<lparr>returned = False, trace = [Notify ''GMOnly'' ''warn''], world_after = w\<rparr>
         else
           let ruinData = getRuinPoints w;
               newValue = max 0 (current ruinData - amount)
           in persistRuin s w ''removed'' ''Ruin point removed'' ''Failed to remove Ruin point''
                chatMessage amount newValue (max_points ruinData))"

text \<open>
  \<^verbatim>\<open>_canUseFate\<close>: a GM target never; with "allow player use" off only a GM session;
  otherwise the target itself or a GM session.
\<close>

definition canUseFate :: "session \<Rightarrow> world \<Rightarrow> user \<Rightarrow> bool" where
  "canUseFate s w u =
     (if isGM u then False
      else if \<not> allowPlayerUse (settings w) then isGM (gameUser s)
      else uid u = uid (gameUser s) \<or> isGM (gameUser s))"

text \<open>
  The effect of \<^verbatim>\<open>character.update({"system.fate.value": newValue})\<close> once the host
  accepts it: the actor with the character's id gets the new value (actor ids are unique
  in the host).
\<close>

definition setFateValue :: "int \<Rightarrow> actor \<Rightarrow> actor" where
  "setFateValue v a =
     a\<lparr>fate := Some (case fate a of
                       None \<Rightarrow> \<lparr>fvalue = Some v, fmax = None\<rparr>
                     | Some f \<Rightarrow> f\<lparr>fvalue := Some v\<rparr>)\<rparr>"

definition updateFateValue :: "string \<Rightarrow> int \<Rightarrow> world \<Rightarrow> world" where
  "updateFateValue cid v w =
     w\<lparr>actors := map (\<lambda>a. if aid a = cid then setFateValue v a else a) (actors w)\<rparr>"

text \<open>
  The \<^verbatim>\<open>try { ... } catch\<close> block shared by \<^verbatim>\<open>useFate\<close>, \<^verbatim>\<open>addFate\<close> and
  \<^verbatim>\<open>removeFate\<close>. No chat message is sent here: that is left to the update hook.
\<close>

definition persistFate :: "session \<Rightarrow> world \<Rightarrow> actor \<Rightarrow> string \<Rightarrow> string \<Rightarrow> int \<Rightarrow> outcome" where
  "persistFate s w c okMsg failMsg newValue =
     (if updateAccepted s then
        \<lparr>returned = True,
         trace = [ActorUpdate (aid c) newValue, Log ''info'' okMsg],
         world_after = updateFateValue (aid c) newValue w\<rparr>
      else
        \<lparr>returned = False,
         trace = [ActorUpdate (aid c) newValue, Log ''error'' failMsg,
                  Notify ''UpdateFailed'' ''error''],
         world_after = w\<rparr>)"

definition useFate :: "session \<Rightarrow> world \<Rightarrow> user \<Rightarrow> int option \<Rightarrow> outcome" where
  "useFate s w u amountArg =
     (let amount = amountOrDefault amountArg
      in if \<not> canUseFate s w u then
           \<lparr>returned = False, trace = [Notify ''CannotUseFate'' ''warn''], world_after = w\<rparr>
         else
           case getPlayerCharacter w u of
             None \<Rightarrow>
               \<lparr>returned = False, trace = [Notify ''NoCharacter'' ''warn''], world_after = w\<rparr>
           | Some c \<Rightarrow>
               (case getFatePoints w u of
                  None \<Rightarrow>
                    \<lparr>returned = False, trace = [Notify ''InsufficientFate'' ''warn''],
                     world_after = w\<rparr>
                | Some fatePoints \<Rightarrow>
                    if current fatePoints < amount then
                      \<lparr>returned = False, trace = [Notify ''InsufficientFate'' ''warn''],
                       world_after = w\<rparr>
                    else
                      let newValue = max 0 (current fatePoints - amount)
                      in persistFate s w c ''Fate point used'' ''Failed to use fate point''
                           newValue))"

definition addFate :: "session \<Rightarrow> world \<Rightarrow> user \<Rightarrow> int option \<Rightarrow> outcome" where
  "addFate s w u amountArg =
     (let amount = amountOrDefault amountArg
      in if \<not> isGM (gameUser s) then
           \<lparr>returned = False, trace = [Notify ''GMOnly'' ''warn''], world_after = w\<rparr>
         else
           case getPlayerCharacter w u of
             None \<Rightarrow>
               \<lparr>returned = False, trace = [Notify ''NoCharacter'' ''warn''], world_after = w\<rparr>
           | Some c \<Rightarrow>
               (case getFatePoints w u of
                  None \<Rightarrow>
                    \<lparr>returned = False, trace = [Notify ''NoFateData'' ''warn''], world_after = w\<rparr>
                | Some fatePoints \<Rightarrow>
                    let newValue = min (max_points fatePoints) (current fatePoints + amount)
                    in persistFate s w c ''Fate point added'' ''Failed to add fate point''
                         newValue))"

definition removeFate :: "session \<Rightarrow> world \<Rightarrow> user \<Rightarrow> int option \<Rightarrow> outcome" where
  "removeFate s w u amountArg =
     (let amount = amountOrDefault amountArg
      in if \<not> isGM (gameUser s) then
           \<lparr>returned = False, trace = [Notify ''GMOnly'' ''warn''], world_after = w\<rparr>
         else
           case getPlayerCharacter w u of
             None \<Rightarrow>
               \<lparr>returned = False, trace = [Notify ''NoCharacter'' ''warn''], world_after = w\<rparr>
           | Some c \<Rightarrow>
               (case getFatePoints w u of
                  None \<Rightarrow>
                    \<lparr>returned = False, trace = [Notify ''NoFateData'' ''warn''], world_after = w\<rparr>
                | Some fatePoints \<Rightarrow>
                    let newValue = max 0 (current fatePoints - amount)
                    in persistFate s w c ''Fate point removed'' ''Failed to remove fate point''
                         newValue))"

text \<open>
  \<^verbatim>\<open>sendFateChangeMessage\<close>: "increased" for a positive difference, "decreased" for a
  negative one, and a plain \<^verbatim>\<open>return\<close> for zero.
\<close>

definition sendFateChangeMessage :: "actor \<Rightarrow> int \<Rightarrow> int \<Rightarrow> int \<Rightarrow> int \<Rightarrow> effect list" where
  "sendFateChangeMessage a oldValue newValue maxValue difference =
     (let amount = \<bar>difference\<bar>;
          localeKey =
            (if difference > 0 then Some ''Chat.FateIncreased''
             else if difference < 0 then Some ''Chat.FateDecreased''
             else None)
      in case localeKey of
           None \<Rightarrow> []
         | Some k \<Rightarrow>
             [ChatCreate \<lparr>cm_class = ''fate-message'', cm_key = k, cm_alias = aname a,
                          cm_data = [(''amount'', amount), (''oldValue'', oldValue),
                                     (''newValue'', newValue), (''current'', newValue),
                                     (''remaining'', newValue), (''max'', maxValue)]\<rparr>])"

section \<open>Event Bindings\<close>

text \<open>The entry \<^verbatim>\<open>options._impmalSharedFate\<close> of an update's options bag.\<close>

record snapshot =
  oldFateValue :: int
  actorId :: string

text \<open>\<^verbatim>\<open>actor.system?.fate?.value ?? 0\<close> and \<^verbatim>\<open>actor.system?.fate?.max ?? 0\<close>.\<close>

definition actorFateValue :: "actor \<Rightarrow> int" where
  "actorFateValue a =
     (case fate a of
        None \<Rightarrow> 0
      | Some f \<Rightarrow> (case fvalue f of None \<Rightarrow> 0 | Some v \<Rightarrow> v))"

definition actorFateMax :: "actor \<Rightarrow> int" where
  "actorFateMax a =
     (case fate a of
        None \<Rightarrow> 0
      | Some f \<Rightarrow> (case fmax f of None \<Rightarrow> 0 | Some m \<Rightarrow> m))"

text \<open>
  The \<^verbatim>\<open>preUpdateActor\<close> hook. \<^verbatim>\<open>touchesFate\<close> is
  \<^verbatim>\<open>hasProperty(changes, "system.fate.value")\<close>; the result is the options bag after the
  hook and the calls made.
\<close>

definition preUpdateActor ::
  "actor \<Rightarrow> bool \<Rightarrow> snapshot option \<Rightarrow> snapshot option \<times> effect list" where
  "preUpdateActor a touchesFate opts =
     (if atype a \<noteq> ''character'' then (opts, [])
      else if \<not> touchesFate then (opts, [])
      else (Some \<lparr>oldFateValue = actorFateValue a, actorId = aid a\<rparr>,
            [Log ''debug'' ''Tracking fate change'']))"

text \<open>
  The \<^verbatim>\<open>updateActor\<close> hook as one session runs it: \<^verbatim>\<open>a\<close> is the actor after the
  update, \<^verbatim>\<open>userId\<close> the id of the user who made it. A rejected
  \<^verbatim>\<open>ChatMessage.create\<close> throws out of the handler, before the last refresh.
\<close>

definition updateActor :: "session \<Rightarrow> world \<Rightarrow> actor \<Rightarrow> snapshot option \<Rightarrow> string \<Rightarrow> effect list" where
  "updateActor s w a opts userId =
     (case opts of
        None \<Rightarrow> []
      | Some snap \<Rightarrow>
          if actorId snap \<noteq> aid a then []
          else
            let newValue = actorFateValue a;
                oldValue = oldFateValue snap;
                maxValue = actorFateMax a
            in if newValue = oldValue then []
               else
                 Log ''debug'' ''Fate changed on actor'' #
                 (if userId \<noteq> uid (gameUser s) then [Refresh]
                  else if \<not> showChatMessages (settings w) then [Refresh]
                  else
                    let difference = newValue - oldValue;
                        sent = sendFateChangeMessage a oldValue newValue maxValue difference
                    in if sent \<noteq> [] \<and> \<not> chatAccepted s then sent
                       else sent @ [Refresh]))"

text \<open>The chat messages among the calls of a trace.\<close>

fun chatMessages :: "effect list \<Rightarrow> chat_message list" where
  "chatMessages [] = []"
| "chatMessages (ChatCreate m # es) = m # chatMessages es"
| "chatMessages (e # es) = chatMessages es"

text \<open>The values a trace writes to the Fate or Ruin state.\<close>

fun writtenValues :: "effect list \<Rightarrow> int list" where
  "writtenValues [] = []"
| "writtenValues (ActorUpdate i v # es) = v # writtenValues es"
| "writtenValues (SettingSet k v # es) = v # writtenValues es"
| "writtenValues (e # es) = writtenValues es"

section \<open>Presentation Layer\<close>

definition canInteractWithFate :: "session \<Rightarrow> world \<Rightarrow> user \<Rightarrow> bool" where
  "canInteractWithFate s w targetUser =
     (if isGM (gameUser s) then True
      else if \<not> allowPlayerUse (settings w) then False
      else uid targetUser = uid (gameUser s))"

text \<open>The class list of the badge container built by \<^verbatim>\<open>_addFateDisplay\<close>.\<close>

definition addFateDisplay_classes :: "session \<Rightarrow> world \<Rightarrow> user \<Rightarrow> points \<Rightarrow> string list" where
  "addFateDisplay_classes s w u fateData =
     (let canInteract = canInteractWithFate s w u;
          canUse = canInteract \<and> current fateData > 0
      in [''impmal-fate-container'', ''fate-container'']
         @ (if canUse then [''interactive''] else [])
         @ (if current fateData = 0 then [''exhausted'']
            else if current fateData = max_points fateData then [''full'']
            else []))"

text \<open>The class list of the badge container built by \<^verbatim>\<open>_addRuinDisplay\<close>.\<close>

definition addRuinDisplay_classes :: "session \<Rightarrow> world \<Rightarrow> user \<Rightarrow> string list" where
  "addRuinDisplay_classes s w u =
     (let ruinData = getRuinPoints w;
          canInteract = isGM (gameUser s) \<and> uid u = uid (gameUser s);
          canUse = canInteract \<and> current ruinData > 0
      in [''impmal-fate-container'', ''ruin-container'']
         @ (if canUse then [''interactive''] else [])
         @ (if current ruinData = 0 then [''exhausted'']
            else if current ruinData = max_points ruinData then [''full'']
            else []))"

section \<open>Specification vocabulary and example states\<close>

text \<open>The invariant of a Fate or Ruin state: \<open>0 \<le> current \<le> max\<close>.\<close>

definition validPoints :: "points \<Rightarrow> bool" where
  "validPoints p = (0 \<le> current p \<and> current p \<le> max_points p)"

text \<open>A written value lies between 0 and the maximum of the resource.\<close>

definition withinBounds :: "points \<Rightarrow> int \<Rightarrow> bool" where
  "withinBounds p v = (0 \<le> v \<and> v \<le> max_points p)"

definition nonNegative :: "int \<Rightarrow> bool" where
  "nonNegative v = (0 \<le> v)"

text \<open>
  A small game: one player with an assigned character holding 3 of 5 Fate, one GM, and a
  Ruin pool of 2 of 5.
\<close>

definition exPlayer :: user where
  "exPlayer = \<lparr>uid = ''u1'', uname = ''Ann'', isGM = False, character = Some ''a1''\<rparr>"

definition exGM :: user where
  "exGM = \<lparr>uid = ''gm'', uname = ''Gamemaster'', isGM = True, character = None\<rparr>"

definition exActor :: actor where
  "exActor = \<lparr>aid = ''a1'', aname = ''Hero'', atype = ''character'', hasPlayerOwner = True,
               owners = [''u1''], fate = Some \<lparr>fvalue = Some 3, fmax = Some 5\<rparr>\<rparr>"

definition exSettings :: module_settings where
  "exSettings = \<lparr>gmRuin = Some 2, gmRuinMax = Some 5, showMaxFate = True,
                  allowPlayerUse = True, showChatMessages = True, logLevel = ''warn''\<rparr>"

definition exWorld :: world where
  "exWorld = \<lparr>settings = exSettings, actors = [exActor]\<rparr>"

definition exGMSession :: session where
  "exGMSession = \<lparr>gameUser = exGM, updateAccepted = True, settingAccepted = True,
                   chatAccepted = True\<rparr>"

definition exPlayerSession :: session where
  "exPlayerSession = \<lparr>gameUser = exPlayer, updateAccepted = True, settingAccepted = True,
                       chatAccepted = True\<rparr>"

text \<open>The example game after the GM lowered the Ruin maximum to 2 while the pool held 4.\<close>

definition exShrunkWorld :: world where
  "exShrunkWorld = exWorld\<lparr>settings := exSettings\<lparr>gmRuin := Some 4, gmRuinMax := Some 2\<rparr>\<rparr>"

text \<open>The example game with "allow player use" switched off.\<close>

definition exLockedWorld :: world where
  "exLockedWorld = exWorld\<lparr>settings := exSettings\<lparr>allowPlayerUse := False\<rparr>\<rparr>"

text \<open>A second player, who has no assigned character and owns none.\<close>

definition exOrphan :: user where
  "exOrphan = \<lparr>uid = ''u2'', uname = ''Bob'', isGM = False, character = None\<rparr>"




text \<open>The example game with an empty Ruin pool of maximum 0.\<close>

definition exEmptyWorld :: world where
  "exEmptyWorld = exWorld\<lparr>settings := exSettings\<lparr>gmRuin := Some 0, gmRuinMax := Some 0\<rparr>\<rparr>"




text \<open>The example game with a Ruin pool of \<open>-1\<close> of \<open>-1\<close>.\<close>

definition exNegativeWorld :: world where
  "exNegativeWorld = exWorld\<lparr>settings := exSettings\<lparr>gmRuin := Some (- 1), gmRuinMax := Some (- 1)\<rparr>\<rparr>"

section \<open>Auxiliary lemmas\<close>

text \<open>The defining equations of the example states and of the operations, for evaluation.\<close>

lemmas ex_defs = exPlayer_def exGM_def exActor_def exSettings_def exWorld_def exGMSession_def
  exPlayerSession_def

lemmas op_defs = amountOrDefault_def assignedCharacter_def getPlayerCharacter_def
  getFatePoints_def getRuinPoints_def sendRuinChatMessage_def persistRuin_def
  chatMessageOption_def useRuin_def addRuin_def removeRuin_def canUseFate_def
  setFateValue_def updateFateValue_def persistFate_def useFate_def addFate_def
  removeFate_def Let_def

text \<open>Writing a fate value changes neither which actor a user resolves to nor its maximum.\<close>

lemma find_map_fixed:
  "(\<And>a. P (f a) = P a) \<Longrightarrow> find P (map f xs) = map_option f (find P xs)"
  by (induction xs) auto

lemma setFateValue_fields [simp]:
  "aid (setFateValue v a) = aid a"
  "atype (setFateValue v a) = atype a"
  "hasPlayerOwner (setFateValue v a) = hasPlayerOwner a"
  "owners (setFateValue v a) = owners a"
  by (simp_all add: setFateValue_def)

lemma getPlayerCharacter_isGM: "getPlayerCharacter w u = Some c \<Longrightarrow> \<not> isGM u"
  by (auto simp: getPlayerCharacter_def split: if_splits)

lemma find_update_fate:
  assumes "\<And>a v. P (setFateValue v a) = P a"
  shows "find P (actors (updateFateValue cid v w))
         = map_option (\<lambda>a. if aid a = cid then setFateValue v a else a) (find P (actors w))"
  unfolding updateFateValue_def
  by (simp, rule find_map_fixed) (simp add: assms)

lemma getPlayerCharacter_updateFateValue:
  assumes "getPlayerCharacter w u = Some c"
  shows "getPlayerCharacter (updateFateValue (aid c) v w) u = Some (setFateValue v c)"
proof -
  let ?f = "\<lambda>a. if aid a = aid c then setFateValue v a else a"
  let ?P = "\<lambda>a. atype a = ''character'' \<and> hasPlayerOwner a \<and> uid u \<in> set (owners a)"
  have ng: "\<not> isGM u" using assms by (rule getPlayerCharacter_isGM)
  have fb: "find ?P (actors (updateFateValue (aid c) v w)) = map_option ?f (find ?P (actors w))"
    by (rule find_update_fate) simp
  have asg: "assignedCharacter (updateFateValue (aid c) v w) u = map_option ?f (assignedCharacter w u)"
    unfolding assignedCharacter_def
    by (cases "character u") (simp_all add: find_update_fate)
  show ?thesis
  proof (cases "assignedCharacter w u")
    case None
    with assms ng have "find ?P (actors w) = Some c" by (simp add: getPlayerCharacter_def)
    with None asg fb ng show ?thesis by (simp add: getPlayerCharacter_def)
  next
    case (Some c0)
    show ?thesis
    proof (cases "atype c0 = ''character''")
      case True
      with Some assms ng have "c0 = c" by (simp add: getPlayerCharacter_def)
      with Some asg ng True show ?thesis by (simp add: getPlayerCharacter_def)
    next
      case False
      with Some assms ng have "find ?P (actors w) = Some c" by (simp add: getPlayerCharacter_def)
      with Some asg fb ng False show ?thesis by (simp add: getPlayerCharacter_def)
    qed
  qed
qed

lemma getFatePoints_updateFateValue:
  assumes "getPlayerCharacter w u = Some c" and "getFatePoints w u = Some fp"
  shows "getFatePoints (updateFateValue (aid c) v w) u = Some (fp\<lparr>current := v\<rparr>)"
proof -
  have ng: "\<not> isGM u" using assms(1) by (rule getPlayerCharacter_isGM)
  from assms ng obtain f where f: "fate c = Some f"
    and fp: "fp = \<lparr>current = (case fvalue f of None \<Rightarrow> 0 | Some v \<Rightarrow> v),
                  max_points = (case fmax f of None \<Rightarrow> 0 | Some m \<Rightarrow> m)\<rparr>"
    by (auto simp: getFatePoints_def split: option.splits)
  show ?thesis
    using ng f fp getPlayerCharacter_updateFateValue [OF assms(1), of v]
    by (simp add: getFatePoints_def setFateValue_def)
qed


lemma persistFate_facts:
  "writtenValues (trace (persistFate s w c okMsg failMsg v)) = [v]"
  "returned (persistFate s w c okMsg failMsg v) \<Longrightarrow>
     world_after (persistFate s w c okMsg failMsg v) = updateFateValue (aid c) v w"
  by (auto simp: persistFate_def split: if_splits)

lemma writtenValues_sendRuinChatMessage:
  "writtenValues (sendRuinChatMessage action amount v m) = []"
  by (simp add: sendRuinChatMessage_def)

lemma writtenValues_append:
  "writtenValues (xs @ ys) = writtenValues xs @ writtenValues ys"
  by (induction xs rule: writtenValues.induct) simp_all

lemma persistRuin_facts:
  "writtenValues (trace (persistRuin s w action okMsg failMsg chat amount v m)) = [v]"
  "returned (persistRuin s w action okMsg failMsg chat amount v m) \<Longrightarrow>
     getRuinPoints (world_after (persistRuin s w action okMsg failMsg chat amount v m))
       = (getRuinPoints w)\<lparr>current := v\<rparr>"
  by (auto simp: persistRuin_def Let_def getRuinPoints_def writtenValues_append
        writtenValues_sendRuinChatMessage split: if_splits)

lemma fate_op_runs:
  assumes "getFatePoints w u = Some fp"
  obtains c where "getPlayerCharacter w u = Some c"
  using assms by (auto simp: getFatePoints_def split: if_splits option.splits)

lemma writtenValues_useFate:
  "writtenValues (trace (useFate s w u a)) = []
   \<or> (\<exists>fp. getFatePoints w u = Some fp \<and> amountOrDefault a \<le> current fp
          \<and> writtenValues (trace (useFate s w u a)) = [max 0 (current fp - amountOrDefault a)])"
  by (auto simp: useFate_def Let_def persistFate_facts split: option.splits)

lemma writtenValues_addFate:
  "writtenValues (trace (addFate s w u a)) = []
   \<or> (\<exists>fp. getFatePoints w u = Some fp
          \<and> writtenValues (trace (addFate s w u a))
               = [min (max_points fp) (current fp + amountOrDefault a)])"
  by (auto simp: addFate_def Let_def persistFate_facts split: option.splits)

lemma writtenValues_removeFate:
  "writtenValues (trace (removeFate s w u a)) = []
   \<or> (\<exists>fp. getFatePoints w u = Some fp
          \<and> writtenValues (trace (removeFate s w u a)) = [max 0 (current fp - amountOrDefault a)])"
  by (auto simp: removeFate_def Let_def persistFate_facts split: option.splits)

lemma writtenValues_useRuin:
  "writtenValues (trace (useRuin s w a opt)) = []
   \<or> (amountOrDefault a \<le> current (getRuinPoints w)
        \<and> writtenValues (trace (useRuin s w a opt))
             = [max 0 (current (getRuinPoints w) - amountOrDefault a)])"
  by (auto simp: useRuin_def Let_def persistRuin_facts)

lemma writtenValues_addRuin:
  "writtenValues (trace (addRuin s w a opt)) = []
   \<or> writtenValues (trace (addRuin s w a opt))
        = [min (max_points (getRuinPoints w)) (current (getRuinPoints w) + amountOrDefault a)]"
  by (auto simp: addRuin_def Let_def persistRuin_facts)

lemma writtenValues_removeRuin:
  "writtenValues (trace (removeRuin s w a opt)) = []
   \<or> writtenValues (trace (removeRuin s w a opt))
        = [max 0 (current (getRuinPoints w) - amountOrDefault a)]"
  by (auto simp: removeRuin_def Let_def persistRuin_facts)

lemma chatMessages_append:
  "chatMessages (xs @ ys) = chatMessages xs @ chatMessages ys"
  by (induction xs rule: chatMessages.induct) simp_all

lemma sendFateChangeMessage_nonzero:
  "d \<noteq> 0 \<Longrightarrow> \<exists>m. sendFateChangeMessage a ov nv mv d = [ChatCreate m]"
  by (simp add: sendFateChangeMessage_def Let_def)



section \<open>Clamped arithmetic of the operations\<close>

text \<open>
  Claim C1. For every Fate or Ruin state with \<open>0 \<le> current \<le> max\<close> and every amount
  \<open>\<ge> 0\<close>, a successful call of \<^verbatim>\<open>useFate\<close>, \<^verbatim>\<open>removeFate\<close>, \<^verbatim>\<open>useRuin\<close> or
  \<^verbatim>\<open>removeRuin\<close> writes exactly the value \<open>max 0 (current - amount)\<close>, the state read
  back afterwards holds that value, and the written value is never negative.
\<close>

theorem use_remove_writes_clamped_difference:
  assumes "0 \<le> amountOrDefault a"
  shows "(\<forall>fp. getFatePoints w u = Some fp \<and> validPoints fp \<longrightarrow>
            (returned (useFate s w u a) \<longrightarrow>
               writtenValues (trace (useFate s w u a)) = [max 0 (current fp - amountOrDefault a)]
               \<and> getFatePoints (world_after (useFate s w u a)) u
                   = Some (fp\<lparr>current := max 0 (current fp - amountOrDefault a)\<rparr>)
               \<and> list_all nonNegative (writtenValues (trace (useFate s w u a))))
          \<and> (returned (removeFate s w u a) \<longrightarrow>
               writtenValues (trace (removeFate s w u a)) = [max 0 (current fp - amountOrDefault a)]
               \<and> getFatePoints (world_after (removeFate s w u a)) u
                   = Some (fp\<lparr>current := max 0 (current fp - amountOrDefault a)\<rparr>)
               \<and> list_all nonNegative (writtenValues (trace (removeFate s w u a)))))
       \<and> (validPoints (getRuinPoints w) \<longrightarrow>
            (returned (useRuin s w a opt) \<longrightarrow>
               writtenValues (trace (useRuin s w a opt))
                 = [max 0 (current (getRuinPoints w) - amountOrDefault a)]
               \<and> getRuinPoints (world_after (useRuin s w a opt))
                   = (getRuinPoints w)\<lparr>current := max 0 (current (getRuinPoints w) - amountOrDefault a)\<rparr>
               \<and> list_all nonNegative (writtenValues (trace (useRuin s w a opt))))
          \<and> (returned (removeRuin s w a opt) \<longrightarrow>
               writtenValues (trace (removeRuin s w a opt))
                 = [max 0 (current (getRuinPoints w) - amountOrDefault a)]
               \<and> getRuinPoints (world_after (removeRuin s w a opt))
                   = (getRuinPoints w)\<lparr>current := max 0 (current (getRuinPoints w) - amountOrDefault a)\<rparr>
               \<and> list_all nonNegative (writtenValues (trace (removeRuin s w a opt)))))"
proof -
  have fateUse: "writtenValues (trace (useFate s w u a)) = [max 0 (current fp - amountOrDefault a)]
       \<and> getFatePoints (world_after (useFate s w u a)) u
           = Some (fp\<lparr>current := max 0 (current fp - amountOrDefault a)\<rparr>)
       \<and> list_all nonNegative (writtenValues (trace (useFate s w u a)))"
    if fp: "getFatePoints w u = Some fp" and ok: "returned (useFate s w u a)" for fp
  proof -
    from fp obtain c where c: "getPlayerCharacter w u = Some c"
      by (auto simp: getFatePoints_def split: if_splits option.splits)
    from ok c fp have run: "useFate s w u a
        = persistFate s w c ''Fate point used'' ''Failed to use fate point''
            (max 0 (current fp - amountOrDefault a))"
      by (auto simp: useFate_def Let_def split: if_splits)
    from ok show ?thesis
      unfolding run
      by (simp add: persistFate_facts getFatePoints_updateFateValue [OF c fp] nonNegative_def)
  qed
  have fateRemove: "writtenValues (trace (removeFate s w u a)) = [max 0 (current fp - amountOrDefault a)]
       \<and> getFatePoints (world_after (removeFate s w u a)) u
           = Some (fp\<lparr>current := max 0 (current fp - amountOrDefault a)\<rparr>)
       \<and> list_all nonNegative (writtenValues (trace (removeFate s w u a)))"
    if fp: "getFatePoints w u = Some fp" and ok: "returned (removeFate s w u a)" for fp
  proof -
    from fp obtain c where c: "getPlayerCharacter w u = Some c"
      by (auto simp: getFatePoints_def split: if_splits option.splits)
    from ok c fp have run: "removeFate s w u a
        = persistFate s w c ''Fate point removed'' ''Failed to remove fate point''
            (max 0 (current fp - amountOrDefault a))"
      by (auto simp: removeFate_def Let_def split: if_splits)
    from ok show ?thesis
      unfolding run
      by (simp add: persistFate_facts getFatePoints_updateFateValue [OF c fp] nonNegative_def)
  qed
  have ruinUse: "writtenValues (trace (useRuin s w a opt))
         = [max 0 (current (getRuinPoints w) - amountOrDefault a)]
       \<and> getRuinPoints (world_after (useRuin s w a opt))
           = (getRuinPoints w)\<lparr>current := max 0 (current (getRuinPoints w) - amountOrDefault a)\<rparr>
       \<and> list_all nonNegative (writtenValues (trace (useRuin s w a opt)))"
    if ok: "returned (useRuin s w a opt)"
  proof -
    from ok have run: "useRuin s w a opt
        = persistRuin s w ''used'' ''Ruin point used'' ''Failed to use Ruin point''
            (chatMessageOption w opt) (amountOrDefault a)
            (max 0 (current (getRuinPoints w) - amountOrDefault a)) (max_points (getRuinPoints w))"
      by (auto simp: useRuin_def Let_def split: if_splits)
    from ok show ?thesis
      unfolding run by (simp add: persistRuin_facts nonNegative_def)
  qed
  have ruinRemove: "writtenValues (trace (removeRuin s w a opt))
         = [max 0 (current (getRuinPoints w) - amountOrDefault a)]
       \<and> getRuinPoints (world_after (removeRuin s w a opt))
           = (getRuinPoints w)\<lparr>current := max 0 (current (getRuinPoints w) - amountOrDefault a)\<rparr>
       \<and> list_all nonNegative (writtenValues (trace (removeRuin s w a opt)))"
    if ok: "returned (removeRuin s w a opt)"
  proof -
    from ok have run: "removeRuin s w a opt
        = persistRuin s w ''removed'' ''Ruin point removed'' ''Failed to remove Ruin point''
            (chatMessageOption w opt) (amountOrDefault a)
            (max 0 (current (getRuinPoints w) - amountOrDefault a)) (max_points (getRuinPoints w))"
      by (auto simp: removeRuin_def Let_def split: if_splits)
    from ok show ?thesis
      unfolding run by (simp add: persistRuin_facts nonNegative_def)
  qed
  show ?thesis
    using fateUse fateRemove ruinUse ruinRemove by blast
qed


text \<open>The theorem at the example game, spending or removing one point as the GM.\<close>

theorem use_remove_writes_clamped_difference_witness:
  "0 \<le> amountOrDefault (Some 1)
   \<and> getFatePoints exWorld exPlayer = Some \<lparr>current = 3, max_points = 5\<rparr>
   \<and> validPoints \<lparr>current = 3, max_points = 5\<rparr>
   \<and> returned (useFate exGMSession exWorld exPlayer (Some 1))
   \<and> writtenValues (trace (useFate exGMSession exWorld exPlayer (Some 1))) = [2]
   \<and> getFatePoints (world_after (useFate exGMSession exWorld exPlayer (Some 1))) exPlayer
       = Some \<lparr>current = 2, max_points = 5\<rparr>
   \<and> returned (removeFate exGMSession exWorld exPlayer (Some 1))
   \<and> writtenValues (trace (removeFate exGMSession exWorld exPlayer (Some 1))) = [2]
   \<and> validPoints (getRuinPoints exWorld)
   \<and> returned (useRuin exGMSession exWorld (Some 1) None)
   \<and> writtenValues (trace (useRuin exGMSession exWorld (Some 1) None)) = [1]
   \<and> returned (removeRuin exGMSession exWorld (Some 1) None)
   \<and> getRuinPoints (world_after (removeRuin exGMSession exWorld (Some 1) None))
       = \<lparr>current = 1, max_points = 5\<rparr>"
proof -
  have amt: "0 \<le> amountOrDefault (Some 1)"
    by (simp add: amountOrDefault_def)
  have fp: "getFatePoints exWorld exPlayer = Some \<lparr>current = 3, max_points = 5\<rparr>"
    by (simp add: op_defs ex_defs)
  have vf: "validPoints \<lparr>current = 3, max_points = 5\<rparr>"
    by (simp add: validPoints_def)
  have vr: "validPoints (getRuinPoints exWorld)"
    by (simp add: validPoints_def op_defs ex_defs)
  have ok: "returned (useFate exGMSession exWorld exPlayer (Some 1))"
    "returned (removeFate exGMSession exWorld exPlayer (Some 1))"
    "returned (useRuin exGMSession exWorld (Some 1) None)"
    "returned (removeRuin exGMSession exWorld (Some 1) None)"
    by (simp_all add: op_defs ex_defs)
  have rp: "getRuinPoints exWorld = \<lparr>current = 2, max_points = 5\<rparr>"
    by (simp add: op_defs ex_defs)
  show ?thesis
    using amt fp vf vr ok
      use_remove_writes_clamped_difference [OF amt, of exWorld exPlayer exGMSession None]
    by (simp add: rp amountOrDefault_def)
qed

text \<open>
  Claim C2. For every Fate or Ruin state with \<open>0 \<le> current \<le> max\<close> and every amount
  \<open>\<ge> 0\<close>, a successful call of \<^verbatim>\<open>addFate\<close> or \<^verbatim>\<open>addRuin\<close> writes exactly the value
  \<open>min max (current + amount)\<close>, the state read back afterwards holds that value, and
  the written value never exceeds the maximum.
\<close>

theorem add_writes_clamped_sum:
  assumes "0 \<le> amountOrDefault a"
  shows "(\<forall>fp. getFatePoints w u = Some fp \<and> validPoints fp \<longrightarrow>
            returned (addFate s w u a) \<longrightarrow>
              writtenValues (trace (addFate s w u a))
                = [min (max_points fp) (current fp + amountOrDefault a)]
              \<and> getFatePoints (world_after (addFate s w u a)) u
                  = Some (fp\<lparr>current := min (max_points fp) (current fp + amountOrDefault a)\<rparr>)
              \<and> list_all (\<lambda>v. v \<le> max_points fp) (writtenValues (trace (addFate s w u a))))
       \<and> (validPoints (getRuinPoints w) \<longrightarrow>
            returned (addRuin s w a opt) \<longrightarrow>
              writtenValues (trace (addRuin s w a opt))
                = [min (max_points (getRuinPoints w)) (current (getRuinPoints w) + amountOrDefault a)]
              \<and> getRuinPoints (world_after (addRuin s w a opt))
                  = (getRuinPoints w)\<lparr>current :=
                       min (max_points (getRuinPoints w)) (current (getRuinPoints w) + amountOrDefault a)\<rparr>
              \<and> list_all (\<lambda>v. v \<le> max_points (getRuinPoints w))
                    (writtenValues (trace (addRuin s w a opt))))"
proof -
  have fateAdd: "writtenValues (trace (addFate s w u a))
         = [min (max_points fp) (current fp + amountOrDefault a)]
       \<and> getFatePoints (world_after (addFate s w u a)) u
           = Some (fp\<lparr>current := min (max_points fp) (current fp + amountOrDefault a)\<rparr>)
       \<and> list_all (\<lambda>v. v \<le> max_points fp) (writtenValues (trace (addFate s w u a)))"
    if fp: "getFatePoints w u = Some fp" and ok: "returned (addFate s w u a)" for fp
  proof -
    from fp obtain c where c: "getPlayerCharacter w u = Some c" by (rule fate_op_runs)
    from ok c fp have run: "addFate s w u a
        = persistFate s w c ''Fate point added'' ''Failed to add fate point''
            (min (max_points fp) (current fp + amountOrDefault a))"
      by (auto simp: addFate_def Let_def split: if_splits)
    from ok show ?thesis
      unfolding run
      by (simp add: persistFate_facts getFatePoints_updateFateValue [OF c fp])
  qed
  have ruinAdd: "writtenValues (trace (addRuin s w a opt))
         = [min (max_points (getRuinPoints w)) (current (getRuinPoints w) + amountOrDefault a)]
       \<and> getRuinPoints (world_after (addRuin s w a opt))
           = (getRuinPoints w)\<lparr>current :=
                min (max_points (getRuinPoints w)) (current (getRuinPoints w) + amountOrDefault a)\<rparr>
       \<and> list_all (\<lambda>v. v \<le> max_points (getRuinPoints w))
            (writtenValues (trace (addRuin s w a opt)))"
    if ok: "returned (addRuin s w a opt)"
  proof -
    from ok have run: "addRuin s w a opt
        = persistRuin s w ''added'' ''Ruin point added'' ''Failed to add Ruin point''
            (chatMessageOption w opt) (amountOrDefault a)
            (min (max_points (getRuinPoints w)) (current (getRuinPoints w) + amountOrDefault a))
            (max_points (getRuinPoints w))"
      by (auto simp: addRuin_def Let_def split: if_splits)
    from ok show ?thesis
      unfolding run by (simp add: persistRuin_facts)
  qed
  show ?thesis
    using fateAdd ruinAdd by blast
qed

text \<open>The theorem at the example game, adding four points as the GM: both pools saturate at 5.\<close>

theorem add_writes_clamped_sum_witness:
  "0 \<le> amountOrDefault (Some 4)
   \<and> getFatePoints exWorld exPlayer = Some \<lparr>current = 3, max_points = 5\<rparr>
   \<and> validPoints \<lparr>current = 3, max_points = 5\<rparr>
   \<and> returned (addFate exGMSession exWorld exPlayer (Some 4))
   \<and> writtenValues (trace (addFate exGMSession exWorld exPlayer (Some 4))) = [5]
   \<and> getFatePoints (world_after (addFate exGMSession exWorld exPlayer (Some 4))) exPlayer
       = Some \<lparr>current = 5, max_points = 5\<rparr>
   \<and> validPoints (getRuinPoints exWorld)
   \<and> returned (addRuin exGMSession exWorld (Some 4) None)
   \<and> writtenValues (trace (addRuin exGMSession exWorld (Some 4) None)) = [5]
   \<and> getRuinPoints (world_after (addRuin exGMSession exWorld (Some 4) None))
       = \<lparr>current = 5, max_points = 5\<rparr>"
proof -
  have amt: "0 \<le> amountOrDefault (Some 4)"
    by (simp add: amountOrDefault_def)
  have fp: "getFatePoints exWorld exPlayer = Some \<lparr>current = 3, max_points = 5\<rparr>"
    by (simp add: op_defs ex_defs)
  have vf: "validPoints \<lparr>current = 3, max_points = 5\<rparr>"
    by (simp add: validPoints_def)
  have rp: "getRuinPoints exWorld = \<lparr>current = 2, max_points = 5\<rparr>"
    by (simp add: op_defs ex_defs)
  have vr: "validPoints (getRuinPoints exWorld)"
    by (simp add: validPoints_def rp)
  have ok: "returned (addFate exGMSession exWorld exPlayer (Some 4))"
    "returned (addRuin exGMSession exWorld (Some 4) None)"
    by (simp_all add: op_defs ex_defs)
  show ?thesis
    using amt fp vf vr ok
      add_writes_clamped_sum [OF amt, of exWorld exPlayer exGMSession None]
    by (simp add: rp amountOrDefault_def)
qed

section \<open>Authorization\<close>

text \<open>
  Claim C4. When the acting session is not a GM, each of \<^verbatim>\<open>addFate\<close>, \<^verbatim>\<open>removeFate\<close>,
  \<^verbatim>\<open>addRuin\<close>, \<^verbatim>\<open>removeRuin\<close> and \<^verbatim>\<open>useRuin\<close> returns false, its only call is the
  "GMOnly" warning notification, and the Fate and Ruin state is the one before the call.
\<close>

theorem gm_only_operations_refuse_players:
  assumes "\<not> isGM (gameUser s)"
  shows "addFate s w u a = \<lparr>returned = False, trace = [Notify ''GMOnly'' ''warn''], world_after = w\<rparr>
       \<and> removeFate s w u a = \<lparr>returned = False, trace = [Notify ''GMOnly'' ''warn''], world_after = w\<rparr>
       \<and> addRuin s w a opt = \<lparr>returned = False, trace = [Notify ''GMOnly'' ''warn''], world_after = w\<rparr>
       \<and> removeRuin s w a opt = \<lparr>returned = False, trace = [Notify ''GMOnly'' ''warn''], world_after = w\<rparr>
       \<and> useRuin s w a opt = \<lparr>returned = False, trace = [Notify ''GMOnly'' ''warn''], world_after = w\<rparr>"
  using assms
  by (simp add: addFate_def removeFate_def addRuin_def removeRuin_def useRuin_def Let_def)

text \<open>The theorem at the example game, with the player's own session acting.\<close>

theorem gm_only_operations_refuse_players_witness:
  "\<not> isGM (gameUser exPlayerSession)
   \<and> returned (addFate exPlayerSession exWorld exPlayer (Some 1)) = False
   \<and> trace (removeFate exPlayerSession exWorld exPlayer None) = [Notify ''GMOnly'' ''warn'']
   \<and> world_after (addRuin exPlayerSession exWorld (Some 2) None) = exWorld
   \<and> returned (removeRuin exPlayerSession exWorld None (Some True)) = False
   \<and> world_after (useRuin exPlayerSession exWorld (Some 1) None) = exWorld"
proof -
  have ng: "\<not> isGM (gameUser exPlayerSession)"
    by (simp add: ex_defs)
  show ?thesis
    using ng
      gm_only_operations_refuse_players [OF ng, of exWorld exPlayer "Some 1" None]
      gm_only_operations_refuse_players [OF ng, of exWorld exPlayer None "Some True"]
      gm_only_operations_refuse_players [OF ng, of exWorld exPlayer "Some 2" None]
    by simp
qed

section \<open>The bounds of written values\<close>

text \<open>
  Claim C3, as stated, fails. Adding \<open>-3\<close> Ruin to a pool of 2 of 5 writes \<open>-1\<close>, and
  removing 1 Ruin from a pool that holds 4 after its maximum was lowered to 2 writes 3:
  each operation clamps on one side only, \<^verbatim>\<open>Math.min\<close> against the maximum when
  adding and \<^verbatim>\<open>Math.max\<close> against 0 when using or removing.
\<close>

theorem written_value_out_of_bounds:
  "writtenValues (trace (addRuin exGMSession exWorld (Some (- 3)) None)) = [- 1]
   \<and> \<not> list_all (withinBounds (getRuinPoints exWorld))
          (writtenValues (trace (addRuin exGMSession exWorld (Some (- 3)) None)))
   \<and> writtenValues (trace (removeRuin exGMSession exShrunkWorld (Some 1) None)) = [3]
   \<and> \<not> list_all (withinBounds (getRuinPoints exShrunkWorld))
          (writtenValues (trace (removeRuin exGMSession exShrunkWorld (Some 1) None)))"
  by (simp add: op_defs ex_defs exShrunkWorld_def withinBounds_def)

text \<open>
  Claim C3, amended. For every operation of the Resource Manager and every amount
  \<open>\<ge> 0\<close>, however large, applied to a Fate or Ruin state with \<open>0 \<le> current \<le> max\<close>,
  every value the operation writes lies between 0 and the maximum of that resource; an
  operation on a user without fate data writes nothing.
\<close>

theorem written_values_within_bounds:
  assumes "0 \<le> amountOrDefault a"
  shows "(\<forall>fp. getFatePoints w u = Some fp \<and> validPoints fp \<longrightarrow>
            list_all (withinBounds fp) (writtenValues (trace (useFate s w u a)))
          \<and> list_all (withinBounds fp) (writtenValues (trace (addFate s w u a)))
          \<and> list_all (withinBounds fp) (writtenValues (trace (removeFate s w u a))))
       \<and> (getFatePoints w u = None \<longrightarrow>
            writtenValues (trace (useFate s w u a)) = []
          \<and> writtenValues (trace (addFate s w u a)) = []
          \<and> writtenValues (trace (removeFate s w u a)) = [])
       \<and> (validPoints (getRuinPoints w) \<longrightarrow>
            list_all (withinBounds (getRuinPoints w)) (writtenValues (trace (useRuin s w a opt)))
          \<and> list_all (withinBounds (getRuinPoints w)) (writtenValues (trace (addRuin s w a opt)))
          \<and> list_all (withinBounds (getRuinPoints w)) (writtenValues (trace (removeRuin s w a opt))))"
proof (intro conjI allI impI)
  fix fp assume h: "getFatePoints w u = Some fp \<and> validPoints fp"
  show "list_all (withinBounds fp) (writtenValues (trace (useFate s w u a)))"
    using writtenValues_useFate [of s w u a] h assms
    by (auto simp: withinBounds_def validPoints_def)
  show "list_all (withinBounds fp) (writtenValues (trace (addFate s w u a)))"
    using writtenValues_addFate [of s w u a] h assms
    by (auto simp: withinBounds_def validPoints_def)
  show "list_all (withinBounds fp) (writtenValues (trace (removeFate s w u a)))"
    using writtenValues_removeFate [of s w u a] h assms
    by (auto simp: withinBounds_def validPoints_def)
next
  assume n: "getFatePoints w u = None"
  show "writtenValues (trace (useFate s w u a)) = []"
    using writtenValues_useFate [of s w u a] n by auto
  show "writtenValues (trace (addFate s w u a)) = []"
    using writtenValues_addFate [of s w u a] n by auto
  show "writtenValues (trace (removeFate s w u a)) = []"
    using writtenValues_removeFate [of s w u a] n by auto
next
  assume v: "validPoints (getRuinPoints w)"
  show "list_all (withinBounds (getRuinPoints w)) (writtenValues (trace (useRuin s w a opt)))"
    using writtenValues_useRuin [of s w a opt] v assms
    by (auto simp: withinBounds_def validPoints_def)
  show "list_all (withinBounds (getRuinPoints w)) (writtenValues (trace (addRuin s w a opt)))"
    using writtenValues_addRuin [of s w a opt] v assms
    by (auto simp: withinBounds_def validPoints_def)
  show "list_all (withinBounds (getRuinPoints w)) (writtenValues (trace (removeRuin s w a opt)))"
    using writtenValues_removeRuin [of s w a opt] v assms
    by (auto simp: withinBounds_def validPoints_def)
qed

text \<open>The theorem at the example game, with an amount of 100 that saturates every pool.\<close>

theorem written_values_within_bounds_witness:
  "0 \<le> amountOrDefault (Some 100)
   \<and> getFatePoints exWorld exPlayer = Some \<lparr>current = 3, max_points = 5\<rparr>
   \<and> validPoints \<lparr>current = 3, max_points = 5\<rparr>
   \<and> validPoints (getRuinPoints exWorld)
   \<and> writtenValues (trace (addFate exGMSession exWorld exPlayer (Some 100))) = [5]
   \<and> list_all (withinBounds \<lparr>current = 3, max_points = 5\<rparr>)
        (writtenValues (trace (addFate exGMSession exWorld exPlayer (Some 100))))
   \<and> writtenValues (trace (removeFate exGMSession exWorld exPlayer (Some 100))) = [0]
   \<and> list_all (withinBounds \<lparr>current = 3, max_points = 5\<rparr>)
        (writtenValues (trace (removeFate exGMSession exWorld exPlayer (Some 100))))
   \<and> writtenValues (trace (removeRuin exGMSession exWorld (Some 100) None)) = [0]
   \<and> list_all (withinBounds (getRuinPoints exWorld))
        (writtenValues (trace (removeRuin exGMSession exWorld (Some 100) None)))
   \<and> list_all (withinBounds (getRuinPoints exWorld))
        (writtenValues (trace (addRuin exGMSession exWorld (Some 100) None)))"
proof -
  have amt: "0 \<le> amountOrDefault (Some 100)"
    by (simp add: amountOrDefault_def)
  have fp: "getFatePoints exWorld exPlayer = Some \<lparr>current = 3, max_points = 5\<rparr>"
    by (simp add: op_defs ex_defs)
  have vf: "validPoints \<lparr>current = 3, max_points = 5\<rparr>"
    by (simp add: validPoints_def)
  have vr: "validPoints (getRuinPoints exWorld)"
    by (simp add: validPoints_def op_defs ex_defs)
  have wr: "writtenValues (trace (addFate exGMSession exWorld exPlayer (Some 100))) = [5]"
    "writtenValues (trace (removeFate exGMSession exWorld exPlayer (Some 100))) = [0]"
    "writtenValues (trace (removeRuin exGMSession exWorld (Some 100) None)) = [0]"
    by (simp_all add: op_defs ex_defs)
  show ?thesis
    using amt fp vf vr
      written_values_within_bounds [OF amt, of exWorld exPlayer exGMSession None]
    by (simp add: wr)
qed

section \<open>Failure of \<^verbatim>\<open>useFate\<close>\<close>

text \<open>
  Claim C5. \<^verbatim>\<open>useFate(user, amount)\<close> returns false, its only call is a warning
  notification, and the state after the call is the state before it, whenever the actor
  is unauthorized, no character is resolvable for the user, or \<open>current < amount\<close>.
\<close>

theorem useFate_fails_softly:
  assumes "\<not> canUseFate s w u
           \<or> getPlayerCharacter w u = None
           \<or> (\<exists>fp. getFatePoints w u = Some fp \<and> current fp < amountOrDefault a)"
  shows "returned (useFate s w u a) = False
       \<and> (\<exists>key. trace (useFate s w u a) = [Notify key ''warn''])
       \<and> writtenValues (trace (useFate s w u a)) = []
       \<and> world_after (useFate s w u a) = w"
proof (cases "canUseFate s w u")
  case False
  then show ?thesis by (simp add: useFate_def Let_def)
next
  case auth: True
  show ?thesis
  proof (cases "getPlayerCharacter w u")
    case None
    with auth show ?thesis by (simp add: useFate_def Let_def)
  next
    case (Some c)
    with auth assms obtain fp
      where "getFatePoints w u = Some fp" and "current fp < amountOrDefault a"
      by auto
    with auth Some show ?thesis by (simp add: useFate_def Let_def)
  qed
qed

text \<open>
  The theorem at the example game: a player spending another player's fate, a GM spending
  for a player without a character, and a GM spending 4 of the 3 points a character holds.
\<close>

theorem useFate_fails_softly_witness:
  "\<not> canUseFate exPlayerSession exWorld exOrphan
   \<and> useFate exPlayerSession exWorld exOrphan (Some 1)
       = \<lparr>returned = False, trace = [Notify ''CannotUseFate'' ''warn''], world_after = exWorld\<rparr>
   \<and> getPlayerCharacter exWorld exOrphan = None
   \<and> returned (useFate exGMSession exWorld exOrphan (Some 1)) = False
   \<and> world_after (useFate exGMSession exWorld exOrphan (Some 1)) = exWorld
   \<and> getFatePoints exWorld exPlayer = Some \<lparr>current = 3, max_points = 5\<rparr>
   \<and> current \<lparr>current = 3, max_points = 5\<rparr> < amountOrDefault (Some 4)
   \<and> returned (useFate exGMSession exWorld exPlayer (Some 4)) = False
   \<and> world_after (useFate exGMSession exWorld exPlayer (Some 4)) = exWorld"
proof -
  have unauth: "\<not> canUseFate exPlayerSession exWorld exOrphan"
    by (simp add: canUseFate_def ex_defs exOrphan_def)
  have nochar: "getPlayerCharacter exWorld exOrphan = None"
    by (simp add: op_defs ex_defs exOrphan_def)
  have fp: "getFatePoints exWorld exPlayer = Some \<lparr>current = 3, max_points = 5\<rparr>"
    by (simp add: op_defs ex_defs)
  have short: "current \<lparr>current = 3, max_points = 5\<rparr> < amountOrDefault (Some 4)"
    by (simp add: amountOrDefault_def)
  have key: "trace (useFate exPlayerSession exWorld exOrphan (Some 1))
             = [Notify ''CannotUseFate'' ''warn'']"
    using unauth by (simp add: useFate_def Let_def)
  from fp short
  have third: "\<exists>fp. getFatePoints exWorld exPlayer = Some fp \<and> current fp < amountOrDefault (Some 4)"
    by simp
  show ?thesis
    using unauth nochar fp short key
      useFate_fails_softly [of exPlayerSession exWorld exOrphan "Some 1", OF disjI1, OF unauth]
      useFate_fails_softly [of exGMSession exWorld exOrphan "Some 1", OF disjI2, OF disjI1, OF nochar]
      useFate_fails_softly [of exGMSession exWorld exPlayer "Some 4", OF disjI2, OF disjI2, OF third]
    by (simp add: outcome.equality)
qed

text \<open>
  Claim C9. For every user whose \<^verbatim>\<open>isGM\<close> flag is true, \<^verbatim>\<open>useFate(user, amount)\<close>
  returns false, its only call is the "CannotUseFate" warning notification, and nothing
  is changed, whoever the acting session is and whatever the amount.
\<close>

theorem useFate_refuses_gm_target:
  assumes "isGM u"
  shows "useFate s w u a
         = \<lparr>returned = False, trace = [Notify ''CannotUseFate'' ''warn''], world_after = w\<rparr>"
  using assms by (simp add: useFate_def canUseFate_def Let_def)

text \<open>The theorem at the example game: the GM's own session spending fate for the GM user.\<close>

theorem useFate_refuses_gm_target_witness:
  "isGM exGM \<and> isGM (gameUser exGMSession)
   \<and> useFate exGMSession exWorld exGM (Some 0)
       = \<lparr>returned = False, trace = [Notify ''CannotUseFate'' ''warn''], world_after = exWorld\<rparr>
   \<and> returned (useFate exPlayerSession exWorld exGM None) = False"
proof -
  have gm: "isGM exGM"
    by (simp add: ex_defs)
  show ?thesis
    using gm useFate_refuses_gm_target [OF gm, of exGMSession exWorld "Some 0"]
      useFate_refuses_gm_target [OF gm, of exPlayerSession exWorld None]
    by (simp add: ex_defs)
qed

section \<open>Chat messages of the update hooks\<close>

text \<open>
  Claim C7. An update whose old and new fate values are equal produces no chat message:
  the \<^verbatim>\<open>updateActor\<close> hook returns before making any call, also when the snapshot is the
  one \<^verbatim>\<open>preUpdateActor\<close> took of an actor holding the same value, and
  \<^verbatim>\<open>sendFateChangeMessage\<close> called with a difference of 0 makes no call.
\<close>

theorem zero_difference_is_silent:
  "(actorFateValue a = oldFateValue snap \<longrightarrow> updateActor s w a (Some snap) userId = [])
   \<and> (actorFateValue a = actorFateValue before \<longrightarrow>
        updateActor s w a (fst (preUpdateActor before touchesFate None)) userId = [])
   \<and> sendFateChangeMessage a oldValue newValue maxValue 0 = []"
  by (simp add: updateActor_def preUpdateActor_def sendFateChangeMessage_def Let_def)

text \<open>The theorem at the example character, updated by the GM to the value it already holds.\<close>

theorem zero_difference_is_silent_witness:
  "actorFateValue exActor = oldFateValue \<lparr>oldFateValue = 3, actorId = ''a1''\<rparr>
   \<and> updateActor exGMSession exWorld exActor (Some \<lparr>oldFateValue = 3, actorId = ''a1''\<rparr>) ''gm'' = []
   \<and> actorFateValue exActor = actorFateValue exActor
   \<and> updateActor exGMSession exWorld exActor (fst (preUpdateActor exActor True None)) ''gm'' = []
   \<and> chatMessages (updateActor exGMSession exWorld exActor (fst (preUpdateActor exActor True None)) ''gm'') = []
   \<and> sendFateChangeMessage exActor 3 3 5 0 = []"
proof -
  have same: "actorFateValue exActor = oldFateValue \<lparr>oldFateValue = 3, actorId = ''a1''\<rparr>"
    by (simp add: actorFateValue_def ex_defs)
  show ?thesis
    using same
      zero_difference_is_silent [of exActor "\<lparr>oldFateValue = 3, actorId = ''a1''\<rparr>"
        exGMSession exWorld "''gm''" exActor True 3 3 5]
    by simp
qed




section \<open>The "allow player use" setting\<close>

text \<open>
  Claim C6. With "allow player use" switched off, \<^verbatim>\<open>useFate\<close> on a non-GM user's own
  character returns false when that user's session is acting, after the "CannotUseFate"
  warning and without any change. When a GM's session is acting it succeeds, provided
  the user has a character with fate data holding at least the amount and the host accepts
  the update: it returns true, its calls are the update of that character's fate value to
  \<open>current - amount\<close> and the log entry, and the state afterwards holds that value.
\<close>

theorem useFate_player_use_disabled:
  assumes "\<not> allowPlayerUse (settings w)" and "\<not> isGM u"
  shows "(gameUser s = u \<longrightarrow>
            useFate s w u a
              = \<lparr>returned = False, trace = [Notify ''CannotUseFate'' ''warn''], world_after = w\<rparr>)
       \<and> (\<forall>c fp. isGM (gameUser s) \<and> updateAccepted s
            \<and> getPlayerCharacter w u = Some c \<and> getFatePoints w u = Some fp
            \<and> amountOrDefault a \<le> current fp \<longrightarrow>
            useFate s w u a
              = \<lparr>returned = True,
                 trace = [ActorUpdate (aid c) (current fp - amountOrDefault a),
                          Log ''info'' ''Fate point used''],
                 world_after = updateFateValue (aid c) (current fp - amountOrDefault a) w\<rparr>
            \<and> getFatePoints (world_after (useFate s w u a)) u
                = Some (fp\<lparr>current := current fp - amountOrDefault a\<rparr>))"
proof (intro conjI impI allI)
  assume "gameUser s = u"
  with assms show "useFate s w u a
      = \<lparr>returned = False, trace = [Notify ''CannotUseFate'' ''warn''], world_after = w\<rparr>"
    by (simp add: useFate_def canUseFate_def Let_def)
next
  fix c fp
  assume h: "isGM (gameUser s) \<and> updateAccepted s
    \<and> getPlayerCharacter w u = Some c \<and> getFatePoints w u = Some fp
    \<and> amountOrDefault a \<le> current fp"
  from assms h have auth: "canUseFate s w u" by (simp add: canUseFate_def)
  from h have clamp: "max 0 (current fp - amountOrDefault a) = current fp - amountOrDefault a"
    by simp
  from auth h show run: "useFate s w u a
      = \<lparr>returned = True,
         trace = [ActorUpdate (aid c) (current fp - amountOrDefault a),
                  Log ''info'' ''Fate point used''],
         world_after = updateFateValue (aid c) (current fp - amountOrDefault a) w\<rparr>"
    by (simp add: useFate_def Let_def persistFate_def clamp)
  from h show "getFatePoints (world_after (useFate s w u a)) u
      = Some (fp\<lparr>current := current fp - amountOrDefault a\<rparr>)"
    unfolding run by (simp add: getFatePoints_updateFateValue)
qed

text \<open>
  The theorem at the example game with the setting off: the player fails, and the GM
  spends one of the character's 3 points.
\<close>

theorem useFate_player_use_disabled_witness:
  "\<not> allowPlayerUse (settings exLockedWorld)
   \<and> \<not> isGM exPlayer
   \<and> gameUser exPlayerSession = exPlayer
   \<and> useFate exPlayerSession exLockedWorld exPlayer (Some 1)
       = \<lparr>returned = False, trace = [Notify ''CannotUseFate'' ''warn''],
          world_after = exLockedWorld\<rparr>
   \<and> isGM (gameUser exGMSession) \<and> updateAccepted exGMSession
   \<and> getPlayerCharacter exLockedWorld exPlayer = Some exActor
   \<and> getFatePoints exLockedWorld exPlayer = Some \<lparr>current = 3, max_points = 5\<rparr>
   \<and> amountOrDefault (Some 1) \<le> current \<lparr>current = 3, max_points = 5\<rparr>
   \<and> returned (useFate exGMSession exLockedWorld exPlayer (Some 1)) = True
   \<and> trace (useFate exGMSession exLockedWorld exPlayer (Some 1))
       = [ActorUpdate ''a1'' 2, Log ''info'' ''Fate point used'']
   \<and> getFatePoints (world_after (useFate exGMSession exLockedWorld exPlayer (Some 1))) exPlayer
       = Some \<lparr>current = 2, max_points = 5\<rparr>"
proof -
  have off: "\<not> allowPlayerUse (settings exLockedWorld)"
    by (simp add: exLockedWorld_def ex_defs)
  have ng: "\<not> isGM exPlayer"
    by (simp add: ex_defs)
  have self: "gameUser exPlayerSession = exPlayer"
    by (simp add: ex_defs)
  have gm: "isGM (gameUser exGMSession)" "updateAccepted exGMSession"
    by (simp_all add: ex_defs)
  have ch: "getPlayerCharacter exLockedWorld exPlayer = Some exActor"
    by (simp add: op_defs ex_defs exLockedWorld_def)
  have fp: "getFatePoints exLockedWorld exPlayer = Some \<lparr>current = 3, max_points = 5\<rparr>"
    by (simp add: op_defs ex_defs exLockedWorld_def)
  have le: "amountOrDefault (Some 1) \<le> current \<lparr>current = 3, max_points = 5\<rparr>"
    by (simp add: amountOrDefault_def)
  have ids: "aid exActor = ''a1''" "amountOrDefault (Some 1) = 1"
    by (simp_all add: ex_defs amountOrDefault_def)
  note player = useFate_player_use_disabled [OF off ng, of exPlayerSession "Some 1"]
  note master = useFate_player_use_disabled [OF off ng, of exGMSession "Some 1"]
  from player self
  have refused: "useFate exPlayerSession exLockedWorld exPlayer (Some 1)
      = \<lparr>returned = False, trace = [Notify ''CannotUseFate'' ''warn''],
         world_after = exLockedWorld\<rparr>"
    by blast
  from master gm ch fp le
  have run: "useFate exGMSession exLockedWorld exPlayer (Some 1)
      = \<lparr>returned = True,
         trace = [ActorUpdate (aid exActor) (current \<lparr>current = 3, max_points = 5\<rparr> - amountOrDefault (Some 1)),
                  Log ''info'' ''Fate point used''],
         world_after = updateFateValue (aid exActor)
           (current \<lparr>current = 3, max_points = 5\<rparr> - amountOrDefault (Some 1)) exLockedWorld\<rparr>"
    and readback: "getFatePoints (world_after (useFate exGMSession exLockedWorld exPlayer (Some 1))) exPlayer
      = Some (\<lparr>current = 3, max_points = 5\<rparr>\<lparr>current :=
          current \<lparr>current = 3, max_points = 5\<rparr> - amountOrDefault (Some 1)\<rparr>)"
    by blast+
  from run have spent: "returned (useFate exGMSession exLockedWorld exPlayer (Some 1)) = True"
    "trace (useFate exGMSession exLockedWorld exPlayer (Some 1))
       = [ActorUpdate ''a1'' 2, Log ''info'' ''Fate point used'']"
    by (simp_all add: ids)
  from readback
  have held: "getFatePoints (world_after (useFate exGMSession exLockedWorld exPlayer (Some 1))) exPlayer
      = Some \<lparr>current = 2, max_points = 5\<rparr>"
    by (simp add: ids)
  from off ng self gm ch fp le refused spent held show ?thesis
    by simp
qed

section \<open>Badge classes\<close>

text \<open>
  Claim C10, as stated, fails. At a state of \<open>-1\<close> of \<open>-1\<close> both badges are classed "full"
  although \<open>current > 0\<close> does not hold: the displays test \<open>current = 0\<close> and then
  \<open>current = max\<close>, and never the sign of the value.
\<close>

theorem full_badge_below_zero:
  "''full'' \<in> set (addFateDisplay_classes exGMSession exWorld exPlayer
                     \<lparr>current = - 1, max_points = - 1\<rparr>)
   \<and> \<not> 0 < current \<lparr>current = - 1, max_points = - 1\<rparr>
   \<and> getRuinPoints exNegativeWorld = \<lparr>current = - 1, max_points = - 1\<rparr>
   \<and> ''full'' \<in> set (addRuinDisplay_classes exGMSession exNegativeWorld exGM)
   \<and> \<not> 0 < current (getRuinPoints exNegativeWorld)"
  by (simp add: addFateDisplay_classes_def addRuinDisplay_classes_def getRuinPoints_def
        canInteractWithFate_def exNegativeWorld_def ex_defs Let_def)

text \<open>
  Claim C10, amended. In the class list of both badges "exhausted" takes priority over
  "full": a state with \<open>current = 0\<close> is classed "exhausted" and not "full", also when the
  maximum is 0 as well, and "full" is applied only when \<open>current = max\<close> and
  \<open>current \<noteq> 0\<close>, and in each such state; for a state with \<open>current \<ge> 0\<close> that is
  \<open>current = max\<close> and \<open>current > 0\<close>.
\<close>

theorem exhausted_before_full:
  "(current fd = 0 \<longrightarrow>
      ''exhausted'' \<in> set (addFateDisplay_classes s w u fd)
      \<and> ''full'' \<notin> set (addFateDisplay_classes s w u fd))
   \<and> (''full'' \<in> set (addFateDisplay_classes s w u fd)
        \<longleftrightarrow> current fd = max_points fd \<and> current fd \<noteq> 0)
   \<and> (''exhausted'' \<in> set (addFateDisplay_classes s w u fd) \<longleftrightarrow> current fd = 0)
   \<and> (0 \<le> current fd \<longrightarrow>
        (''full'' \<in> set (addFateDisplay_classes s w u fd)
          \<longleftrightarrow> current fd = max_points fd \<and> 0 < current fd))
   \<and> (current (getRuinPoints w) = 0 \<longrightarrow>
      ''exhausted'' \<in> set (addRuinDisplay_classes s w u)
      \<and> ''full'' \<notin> set (addRuinDisplay_classes s w u))
   \<and> (''full'' \<in> set (addRuinDisplay_classes s w u)
        \<longleftrightarrow> current (getRuinPoints w) = max_points (getRuinPoints w)
            \<and> current (getRuinPoints w) \<noteq> 0)
   \<and> (''exhausted'' \<in> set (addRuinDisplay_classes s w u) \<longleftrightarrow> current (getRuinPoints w) = 0)
   \<and> (0 \<le> current (getRuinPoints w) \<longrightarrow>
        (''full'' \<in> set (addRuinDisplay_classes s w u)
          \<longleftrightarrow> current (getRuinPoints w) = max_points (getRuinPoints w)
              \<and> 0 < current (getRuinPoints w)))"
  by (auto simp: addFateDisplay_classes_def addRuinDisplay_classes_def Let_def)

text \<open>
  The theorem at pools of 0 of 0, where both badges are "exhausted" and neither is "full",
  and at the example game's Ruin pool raised to 5 of 5, which is "full".
\<close>

theorem exhausted_before_full_witness:
  "current \<lparr>current = 0, max_points = 0\<rparr> = 0
   \<and> current \<lparr>current = 0, max_points = 0\<rparr> = max_points \<lparr>current = 0, max_points = 0\<rparr>
   \<and> ''exhausted'' \<in> set (addFateDisplay_classes exGMSession exWorld exPlayer \<lparr>current = 0, max_points = 0\<rparr>)
   \<and> ''full'' \<notin> set (addFateDisplay_classes exGMSession exWorld exPlayer \<lparr>current = 0, max_points = 0\<rparr>)
   \<and> getRuinPoints exEmptyWorld = \<lparr>current = 0, max_points = 0\<rparr>
   \<and> ''exhausted'' \<in> set (addRuinDisplay_classes exGMSession exEmptyWorld exGM)
   \<and> ''full'' \<notin> set (addRuinDisplay_classes exGMSession exEmptyWorld exGM)
   \<and> 0 \<le> current \<lparr>current = 5, max_points = 5\<rparr>
   \<and> ''full'' \<in> set (addFateDisplay_classes exGMSession exWorld exPlayer \<lparr>current = 5, max_points = 5\<rparr>)"
proof -
  have rp: "getRuinPoints exEmptyWorld = \<lparr>current = 0, max_points = 0\<rparr>"
    by (simp add: getRuinPoints_def exEmptyWorld_def ex_defs)
  show ?thesis
    using rp
      exhausted_before_full [of "\<lparr>current = 0, max_points = 0\<rparr>" exGMSession exWorld exPlayer]
      exhausted_before_full [of "\<lparr>current = 0, max_points = 0\<rparr>" exGMSession exEmptyWorld exGM]
      exhausted_before_full [of "\<lparr>current = 5, max_points = 5\<rparr>" exGMSession exWorld exPlayer]
    by simp
qed

end
